theory Spec2Isabelle
  imports Main "HOL-Library.Word" "HOL-Library.Multiset"
begin

section \<open>Dynamically typed values, as \<open>reflect\<close> sees them\<close>

text \<open>
  \<open>stringifyValue\<close> takes an \<open>interface{}\<close> and switches on \<open>reflect.ValueOf(raw).Kind()\<close>.
  A value is modelled by its kind and the payload the accessors \<open>v.Bool()\<close>, \<open>v.Int()\<close>,
  \<open>v.Uint()\<close>, \<open>v.Float()\<close>, \<open>v.String()\<close>, \<open>v.Len()\<close>/\<open>v.Index(i)\<close> return.
  \<open>v.Int()\<close> is an \<open>int64\<close> and \<open>v.Uint()\<close> a \<open>uint64\<close> whatever the width of the kind;
  \<open>v.Float()\<close> is a \<open>float64\<close>, kept as its 64 bits.
\<close>

datatype IntKind = reflect_Int | reflect_Int8 | reflect_Int16 | reflect_Int32 | reflect_Int64

datatype UintKind =
  reflect_Uint | reflect_Uint8 | reflect_Uint16 | reflect_Uint32 | reflect_Uint64 | reflect_Uintptr

datatype FloatKind = reflect_Float32 | reflect_Float64

datatype OtherKind =
  reflect_Complex64 | reflect_Complex128 | reflect_Chan | reflect_Func | reflect_Pointer
  | reflect_Struct | reflect_UnsafePointer

datatype go_value =
    VNil
  | VBool bool
  | VInt IntKind "64 word"
  | VUint UintKind "64 word"
  | VFloat FloatKind "64 word"
  | VString string
  | VSlice "go_value list"
  | VArray "go_value list"
  | VMap "(string \<times> go_value) list"
  | VOther OtherKind

text \<open>
  \<open>VNil\<close> is the nil interface (JSON \<open>null\<close>): \<open>reflect.ValueOf(nil)\<close> is the zero Value,
  whose kind is \<open>reflect.Invalid\<close>. \<open>VMap\<close> is a JSON object (\<open>map[string]interface{}\<close>).
  \<open>encoding/json\<close> decodes into \<open>interface{}\<close> only \<open>VNil\<close>, \<open>VBool\<close>,
  \<open>VFloat reflect_Float64\<close>, \<open>VString\<close>, \<open>VSlice\<close> and \<open>VMap\<close>.
\<close>

subsection \<open>\<open>fmt.Sprintf("%v", _)\<close> and \<open>strings.Join\<close>\<close>

definition digit_char :: "nat \<Rightarrow> char" where
  "digit_char d = char_of (48 + d)"

function FormatUint :: "nat \<Rightarrow> string" where
  "FormatUint n = (if n < 10 then [digit_char n] else FormatUint (n div 10) @ [digit_char (n mod 10)])"
  by pat_completeness auto
termination
  by (relation "measure (\<lambda>n. n)") auto

declare FormatUint.simps [simp del]

definition FormatInt :: "int \<Rightarrow> string" where
  "FormatInt i = (if i < 0 then CHR ''-'' # FormatUint (nat (- i)) else FormatUint (nat i))"

definition FormatBool :: "bool \<Rightarrow> string" where
  "FormatBool b = (if b then ''true'' else ''false'')"

fun Join :: "string list \<Rightarrow> string \<Rightarrow> string" where
  "Join [] sep = []"
| "Join [x] sep = x"
| "Join (x # y # ys) sep = x @ sep @ Join (y # ys) sep"

subsection \<open>\<open>stringifyValue\<close>\<close>

text \<open>
  \<open>ff\<close> is \<open>fmt.Sprintf("%v", _)\<close> on a \<open>float64\<close> (the shortest \<open>%g\<close> rendering), which
  is not modelled: the float's bits go in, a string comes out. The inner loop of the
  \<open>Slice\<close>/\<open>Array\<close> case is \<open>stringifyElems\<close>: \<open>arr\<close> is the accumulator, and an element whose
  stringification is nil is not appended.
\<close>

fun stringifyValue :: "(64 word \<Rightarrow> string) \<Rightarrow> go_value \<Rightarrow> string option"
  and stringifyElems :: "(64 word \<Rightarrow> string) \<Rightarrow> go_value list \<Rightarrow> string list \<Rightarrow> string list"
where
  "stringifyValue ff (VBool b) = Some (FormatBool b)"
| "stringifyValue ff (VInt k w) =
     (if k \<in> {reflect_Int, reflect_Int8, reflect_Int32, reflect_Int64}
      then Some (FormatInt (sint w)) else None)"
| "stringifyValue ff (VUint k w) =
     (if k \<in> {reflect_Uint, reflect_Uint8, reflect_Uint32, reflect_Uint64}
      then Some (FormatUint (unat w)) else None)"
| "stringifyValue ff (VFloat k w) = Some (ff w)"
| "stringifyValue ff (VString s) = Some s"
| "stringifyValue ff (VSlice xs) = Some (Join (stringifyElems ff xs []) '','')"
| "stringifyValue ff (VArray xs) = Some (Join (stringifyElems ff xs []) '','')"
| "stringifyValue ff VNil = None"
| "stringifyValue ff (VMap m) = None"
| "stringifyValue ff (VOther k) = None"
| "stringifyElems ff [] arr = arr"
| "stringifyElems ff (x # xs) arr =
     (case stringifyValue ff x of
        Some s \<Rightarrow> stringifyElems ff xs (arr @ [s])
      | None \<Rightarrow> stringifyElems ff xs arr)"

subsection \<open>The values \<open>stringifyValue\<close> receives\<close>

text \<open>
  \<open>stringifyValue\<close> is unexported and has two call sites: \<open>extractResponseHeaders\<close> calls it
  on a value of the \<open>map[string]interface{}\<close> that \<open>encoding/json\<close> decoded, and the array case
  calls it on the elements of such a value. \<open>encoding/json\<close> stores in an \<open>interface{}\<close> a
  \<open>bool\<close> for a JSON boolean, a \<open>float64\<close> for every JSON number (an integer in the body
  included), a \<open>string\<close> for a JSON string, a \<open>[]interface{}\<close> for an array, a
  \<open>map[string]interface{}\<close> for an object and nil for null. \<open>json_scalar\<close> are the decoded
  booleans, numbers and strings; \<open>json_decoded\<close> are all decoded values.
\<close>

fun json_scalar :: "go_value \<Rightarrow> bool" where
  "json_scalar (VBool b) = True"
| "json_scalar (VFloat k w) = (k = reflect_Float64)"
| "json_scalar (VString s) = True"
| "json_scalar VNil = False"
| "json_scalar (VInt k w) = False"
| "json_scalar (VUint k w) = False"
| "json_scalar (VSlice xs) = False"
| "json_scalar (VArray xs) = False"
| "json_scalar (VMap m) = False"
| "json_scalar (VOther k) = False"

fun json_decoded :: "go_value \<Rightarrow> bool" where
  "json_decoded VNil = True"
| "json_decoded (VBool b) = True"
| "json_decoded (VFloat k w) = (k = reflect_Float64)"
| "json_decoded (VString s) = True"
| "json_decoded (VSlice xs) = list_all json_decoded xs"
| "json_decoded (VMap m) = list_all json_decoded (map snd m)"
| "json_decoded (VInt k w) = False"
| "json_decoded (VUint k w) = False"
| "json_decoded (VArray xs) = False"
| "json_decoded (VOther k) = False"

section \<open>Go maps and \<open>range\<close>\<close>

text \<open>
  A Go map is a finite partial function. \<open>for k, v := range m\<close> visits every key once, in an
  order the runtime chooses anew for each loop; the order is an argument \<open>ks\<close> of every function
  that ranges over a map, and \<open>iteration_order m ks\<close> says that \<open>ks\<close> is one of the orders the
  runtime can choose. \<open>range_of m ks\<close> are the pairs the loop body sees.
\<close>

definition iteration_order :: "('k \<rightharpoonup> 'v) \<Rightarrow> 'k list \<Rightarrow> bool" where
  "iteration_order m ks = (distinct ks \<and> set ks = dom m)"

definition range_of :: "('k \<rightharpoonup> 'v) \<Rightarrow> 'k list \<Rightarrow> ('k \<times> 'v) list" where
  "range_of m ks = List.map_filter (\<lambda>k. map_option (Pair k) (m k)) ks"

section \<open>The plugin's data\<close>

text \<open>A Go \<open>error\<close>, as the message \<open>errors.New\<close> was given.\<close>

datatype error = Error string

record Config =
  AuthUrl :: string
  ForwardRequestHeaders :: "string list"
  RequestIdHeader :: string
  ResponseHeaders :: "string \<rightharpoonup> string"

text \<open>
  What \<open>GetAuthService\<close> is handed: a \<open>*Config\<close>, or a value of another type (its \<open>%T\<close>).
  The pointer is the one \<open>NewConfigInstance\<close> returned, \<open>&Config{}\<close> filled in by the host: it
  is not nil.
\<close>

datatype ConfigInstance = ConfigPtr Config | OtherInstance string

record RemoteAuthService =
  AuthUrl :: string
  ForwardRequestHeaders :: "string \<rightharpoonup> bool"
  AttributesToHeadersMap :: "string \<rightharpoonup> string"
  RequestIdHeader :: string

text \<open>
  The inbound request: \<open>CheckRequest.GetAttributes().GetRequest().GetHttp().GetHeaders()\<close>,
  a \<open>map[string]string\<close> (the nil map when a link of the chain is nil, which reads as empty).
\<close>

record AuthorizationRequest =
  GetHeaders :: "string \<rightharpoonup> string"

text \<open>
  The outbound \<open>*http.Request\<close>. \<open>Header\<close> is the sequence of \<open>Header.Add(key, value)\<close> calls
  made on it; what \<open>net/http\<close> does with a key (it stores it in canonical MIME form) is
  outside the plugin.
\<close>

record Request =
  Method :: string
  URL :: string
  Header :: "(string \<times> string) list"

record Response =
  StatusCode :: int
  Body :: string

record HeaderValueOption =
  Key :: string
  Value :: string

text \<open>
  \<open>api.UnauthenticatedResponse()\<close>, and \<open>api.AuthorizedResponse()\<close> with its \<open>OkResponse.Headers\<close>
  set.
\<close>

datatype AuthorizationResponse =
    UnauthenticatedResponse
  | AuthorizedResponse "HeaderValueOption list"

text \<open>
  The libraries and the network the plugin calls, as functions: \<open>Sprintf_float\<close> is
  \<open>fmt.Sprintf("%v", _)\<close> on a \<open>float64\<close>; \<open>NewRequest_error\<close> is the error (if any) of
  \<open>http.NewRequestWithContext\<close> for a URL; \<open>Do\<close> is \<open>httpClient.Do\<close>, the remote authorization
  service behind the network; \<open>Decode\<close> is \<open>json.NewDecoder(body).Decode(&data)\<close> for a
  \<open>map[string]interface{}\<close>.
\<close>

record runtime =
  Sprintf_float :: "64 word \<Rightarrow> string"
  NewRequest_error :: "string \<Rightarrow> error option"
  Do :: "Request \<Rightarrow> error + Response"
  Decode :: "string \<Rightarrow> error + (string \<rightharpoonup> go_value)"

text \<open>
  What one call does besides returning: the outbound call, the decoding of the response
  body, and the log lines (level, message, and the \<open>request_id\<close> field of the logger used).
\<close>

datatype Level = InfoLevel | ErrorLevel

datatype event =
    HttpDo Request
  | DecodeBody string
  | Log Level string "string option"

section \<open>\<open>GetAuthService\<close>\<close>

text \<open>
  The type assertion \<open>configInstance.(*Config)\<close> is the case distinction; the loop over
  \<open>config.ForwardRequestHeaders\<close> is \<open>forwardHeadersMap_loop\<close>. The line it logs is left out.
\<close>

definition UnexpectedConfigError :: "string \<Rightarrow> error" where
  "UnexpectedConfigError typ = Error (''unexpected config type '' @ typ)"

fun forwardHeadersMap_loop :: "string list \<Rightarrow> (string \<rightharpoonup> bool) \<Rightarrow> (string \<rightharpoonup> bool)" where
  "forwardHeadersMap_loop [] forwardHeadersMap = forwardHeadersMap"
| "forwardHeadersMap_loop (v # vs) forwardHeadersMap =
     forwardHeadersMap_loop vs (forwardHeadersMap(v \<mapsto> True))"

definition GetAuthService :: "ConfigInstance \<Rightarrow> error + RemoteAuthService" where
  "GetAuthService configInstance =
     (case configInstance of
        OtherInstance typ \<Rightarrow> Inl (UnexpectedConfigError typ)
      | ConfigPtr config \<Rightarrow>
          (let forwardHeadersMap =
                 forwardHeadersMap_loop (Config.ForwardRequestHeaders config) Map.empty;
               attributesToHeaderMap = ResponseHeaders config
           in Inr \<lparr> AuthUrl = Config.AuthUrl config,
                    ForwardRequestHeaders = forwardHeadersMap,
                    AttributesToHeadersMap = attributesToHeaderMap,
                    RequestIdHeader = Config.RequestIdHeader config \<rparr>))"

text \<open>
  The variant of \<open>GetAuthService\<close> in \<open>src/unnamed/part_000\<close>: it has no \<open>RequestIdHeader\<close>
  (the field keeps Go's zero value here), and it fills \<open>attributesToHeaderMap\<close> by ranging over
  \<open>config.ResponseHeaders\<close> (in the order \<open>ks\<close>) and storing each entry the other way round.
\<close>

fun attributesToHeaderMap_loop ::
  "(string \<times> string) list \<Rightarrow> (string \<rightharpoonup> string) \<Rightarrow> (string \<rightharpoonup> string)" where
  "attributesToHeaderMap_loop [] attributesToHeaderMap = attributesToHeaderMap"
| "attributesToHeaderMap_loop ((headerKey, attribute) # rest) attributesToHeaderMap =
     attributesToHeaderMap_loop rest (attributesToHeaderMap(attribute \<mapsto> headerKey))"

definition GetAuthService_part_000 :: "string list \<Rightarrow> ConfigInstance \<Rightarrow> error + RemoteAuthService" where
  "GetAuthService_part_000 ks configInstance =
     (case configInstance of
        OtherInstance typ \<Rightarrow> Inl (UnexpectedConfigError typ)
      | ConfigPtr config \<Rightarrow>
          (let forwardHeadersMap =
                 forwardHeadersMap_loop (Config.ForwardRequestHeaders config) Map.empty;
               attributesToHeaderMap =
                 attributesToHeaderMap_loop (range_of (ResponseHeaders config) ks) Map.empty
           in Inr \<lparr> AuthUrl = Config.AuthUrl config,
                    ForwardRequestHeaders = forwardHeadersMap,
                    AttributesToHeadersMap = attributesToHeaderMap,
                    RequestIdHeader = [] \<rparr>))"

section \<open>Forwarding request headers\<close>

definition Header_Add :: "Request \<Rightarrow> string \<Rightarrow> string \<Rightarrow> Request" where
  "Header_Add r key val = r\<lparr> Header := Header r @ [(key, val)] \<rparr>"

fun forwardLoop :: "(string \<rightharpoonup> string) \<Rightarrow> (string \<times> bool) list \<Rightarrow> Request \<Rightarrow> Request" where
  "forwardLoop headers [] remoteRequest = remoteRequest"
| "forwardLoop headers ((key, shouldForward) # rest) remoteRequest =
     (if shouldForward then
        (case headers key of
           Some val \<Rightarrow> forwardLoop headers rest (Header_Add remoteRequest key val)
         | None \<Rightarrow> forwardLoop headers rest remoteRequest)
      else forwardLoop headers rest remoteRequest)"

definition forwardAllowedHeaders ::
  "string list \<Rightarrow> RemoteAuthService \<Rightarrow> Request \<Rightarrow> AuthorizationRequest \<Rightarrow> Request" where
  "forwardAllowedHeaders ks c remoteRequest authzRequest =
     (let headers = GetHeaders authzRequest
      in forwardLoop headers (range_of (RemoteAuthService.ForwardRequestHeaders c) ks) remoteRequest)"

text \<open>
  The variant in \<open>src/unnamed/part_000\<close> ranges over the inbound headers instead (in the order
  \<open>ks\<close>) and looks each name up in \<open>c.ForwardRequestHeaders\<close>.
\<close>

fun forwardLoop_part_000 ::
  "(string \<rightharpoonup> bool) \<Rightarrow> (string \<times> string) list \<Rightarrow> Request \<Rightarrow> Request" where
  "forwardLoop_part_000 fwd [] remoteRequest = remoteRequest"
| "forwardLoop_part_000 fwd ((key, val) # rest) remoteRequest =
     (case fwd key of
        Some v \<Rightarrow>
          (if v then forwardLoop_part_000 fwd rest (Header_Add remoteRequest key val)
           else forwardLoop_part_000 fwd rest remoteRequest)
      | None \<Rightarrow> forwardLoop_part_000 fwd rest remoteRequest)"

definition forwardAllowedHeaders_part_000 ::
  "string list \<Rightarrow> RemoteAuthService \<Rightarrow> Request \<Rightarrow> AuthorizationRequest \<Rightarrow> Request" where
  "forwardAllowedHeaders_part_000 ks c remoteRequest authzRequest =
     forwardLoop_part_000 (RemoteAuthService.ForwardRequestHeaders c)
       (range_of (GetHeaders authzRequest) ks) remoteRequest"

section \<open>The correlation identifier\<close>

definition extractRequestId :: "RemoteAuthService \<Rightarrow> AuthorizationRequest \<Rightarrow> string option" where
  "extractRequestId c authzRequest =
     (if RemoteAuthService.RequestIdHeader c = [] then None
      else GetHeaders authzRequest (RemoteAuthService.RequestIdHeader c))"

section \<open>Extracting the response headers\<close>

fun extractLoop ::
  "(64 word \<Rightarrow> string) \<Rightarrow> (string \<rightharpoonup> go_value) \<Rightarrow> (string \<times> string) list
    \<Rightarrow> HeaderValueOption list \<Rightarrow> HeaderValueOption list" where
  "extractLoop ff data [] headers = headers"
| "extractLoop ff data ((attribute, header) # rest) headers =
     (case data attribute of
        Some raw \<Rightarrow>
          (case stringifyValue ff raw of
             Some val \<Rightarrow> extractLoop ff data rest (headers @ [\<lparr> Key = header, Value = val \<rparr>])
           | None \<Rightarrow> extractLoop ff data rest headers)
      | None \<Rightarrow> extractLoop ff data rest headers)"

definition extractResponseHeaders ::
  "runtime \<Rightarrow> string list \<Rightarrow> string \<Rightarrow> (string \<rightharpoonup> string) \<Rightarrow> error + HeaderValueOption list" where
  "extractResponseHeaders rt ks authzBody attributesToHeadersMap =
     (case Decode rt authzBody of
        Inl err \<Rightarrow> Inl err
      | Inr data \<Rightarrow>
          Inr (extractLoop (Sprintf_float rt) data (range_of attributesToHeadersMap ks) []))"

section \<open>\<open>Authorize\<close>\<close>

definition NewRequestWithContext :: "runtime \<Rightarrow> string \<Rightarrow> string \<Rightarrow> error + Request" where
  "NewRequestWithContext rt method url =
     (case NewRequest_error rt url of
        Some err \<Rightarrow> Inl err
      | None \<Rightarrow> Inr \<lparr> Method = method, URL = url, Header = [] \<rparr>)"

text \<open>
  \<open>fo\<close> is the order in which this call ranges over \<open>c.ForwardRequestHeaders\<close>, \<open>ao\<close> the order
  in which it ranges over \<open>c.AttributesToHeadersMap\<close>. The result is the pair of what the call
  did and what it returned.
\<close>

definition Authorize ::
  "runtime \<Rightarrow> string list \<Rightarrow> string list \<Rightarrow> RemoteAuthService \<Rightarrow> AuthorizationRequest
    \<Rightarrow> event list \<times> (error + AuthorizationResponse)" where
  "Authorize rt fo ao c authzRequest =
     (let requestId = extractRequestId c authzRequest
      in case NewRequestWithContext rt ''GET'' (RemoteAuthService.AuthUrl c) of
           Inl err \<Rightarrow> ([], Inl err)
         | Inr request0 \<Rightarrow>
             (let request = forwardAllowedHeaders fo c request0 authzRequest
              in case Do rt request of
                   Inl err \<Rightarrow>
                     ([HttpDo request,
                       Log ErrorLevel ''Unexpected error from upstream'' requestId], Inl err)
                 | Inr response \<Rightarrow>
                     if StatusCode response \<noteq> 200 then
                       ([HttpDo request,
                         Log InfoLevel ''Unsuccessful response from upstream, denying access''
                           requestId],
                        Inr UnauthenticatedResponse)
                     else
                       (case extractResponseHeaders rt ao (Body response)
                               (AttributesToHeadersMap c) of
                          Inl err \<Rightarrow>
                            ([HttpDo request, DecodeBody (Body response),
                              Log ErrorLevel ''Unexpected error while extracting response headers''
                                requestId], Inl err)
                        | Inr responseHeaders \<Rightarrow>
                            ([HttpDo request, DecodeBody (Body response),
                              Log InfoLevel ''Successful response from upstream, allowing request''
                                None],
                             Inr (AuthorizedResponse responseHeaders)))))"

text \<open>
  The variant in \<open>src/unnamed/part_000\<close>: no correlation identifier, the older
  \<open>forwardAllowedHeaders\<close> (\<open>fo\<close> is then the order in which it ranges over the inbound
  headers), and the success line is logged before the body is decoded.
\<close>

definition Authorize_part_000 ::
  "runtime \<Rightarrow> string list \<Rightarrow> string list \<Rightarrow> RemoteAuthService \<Rightarrow> AuthorizationRequest
    \<Rightarrow> event list \<times> (error + AuthorizationResponse)" where
  "Authorize_part_000 rt fo ao c authzRequest =
     (case NewRequestWithContext rt ''GET'' (RemoteAuthService.AuthUrl c) of
        Inl err \<Rightarrow> ([], Inl err)
      | Inr request0 \<Rightarrow>
          (let request = forwardAllowedHeaders_part_000 fo c request0 authzRequest
           in case Do rt request of
                Inl err \<Rightarrow>
                  ([HttpDo request, Log ErrorLevel ''Unexpected error from upstream'' None],
                   Inl err)
              | Inr response \<Rightarrow>
                  if StatusCode response \<noteq> 200 then
                    ([HttpDo request,
                      Log InfoLevel ''Unsuccessful response from upstream, denying access'' None],
                     Inr UnauthenticatedResponse)
                  else
                    (case extractResponseHeaders rt ao (Body response)
                            (AttributesToHeadersMap c) of
                       Inl err \<Rightarrow>
                         ([HttpDo request,
                           Log InfoLevel ''Successful response from upstream, allowing request''
                             None,
                           DecodeBody (Body response),
                           Log ErrorLevel ''Unexpected error while extracting response headers''
                             None], Inl err)
                     | Inr responseHeaders \<Rightarrow>
                         ([HttpDo request,
                           Log InfoLevel ''Successful response from upstream, allowing request''
                             None,
                           DecodeBody (Body response)],
                          Inr (AuthorizedResponse responseHeaders)))))"

section \<open>Sample inputs\<close>

text \<open>A stand-in for \<open>fmt.Sprintf("%v", _)\<close> on floats where no float is involved.\<close>

definition sample_Sprintf_float :: "64 word \<Rightarrow> string" where
  "sample_Sprintf_float w = ''<float64>''"

text \<open>
  A configuration that forwards two headers, the service \<open>GetAuthService\<close> builds from it,
  and an inbound request that has one of them, a header that is not allow-listed, and the
  other one in another letter case.
\<close>

definition forwarding_config :: Config where
  "forwarding_config =
     \<lparr> Config.AuthUrl = ''http://auth.example/check'',
       Config.ForwardRequestHeaders = [''authorization'', ''x-tidepool-session-token''],
       Config.RequestIdHeader = [],
       ResponseHeaders = Map.empty \<rparr>"

definition forwarding_service :: RemoteAuthService where
  "forwarding_service =
     \<lparr> AuthUrl = ''http://auth.example/check'',
       ForwardRequestHeaders = [''authorization'' \<mapsto> True, ''x-tidepool-session-token'' \<mapsto> True],
       AttributesToHeadersMap = Map.empty,
       RequestIdHeader = [] \<rparr>"

definition inbound_request :: AuthorizationRequest where
  "inbound_request =
     \<lparr> GetHeaders = [''cookie'' \<mapsto> ''c=1'', ''authorization'' \<mapsto> ''Bearer t'',
                      ''X-Tidepool-Session-Token'' \<mapsto> ''s''] \<rparr>"

definition new_request :: Request where
  "new_request = \<lparr> Method = ''GET'', URL = ''http://auth.example/check'', Header = [] \<rparr>"

text \<open>
  A configuration whose \<open>ResponseHeaders\<close> is written in the direction outbound header name
  to remote attribute name, and the service \<open>GetAuthService\<close> builds from it.
\<close>

definition header_to_attribute_config :: Config where
  "header_to_attribute_config =
     \<lparr> Config.AuthUrl = ''http://auth.example/check'',
       Config.ForwardRequestHeaders = [],
       Config.RequestIdHeader = [],
       ResponseHeaders = [''x-auth-subject-id'' \<mapsto> ''userid'', ''x-auth-roles'' \<mapsto> ''roles''] \<rparr>"

definition header_to_attribute_service :: RemoteAuthService where
  "header_to_attribute_service =
     \<lparr> AuthUrl = ''http://auth.example/check'',
       ForwardRequestHeaders = Map.empty,
       AttributesToHeadersMap = [''x-auth-subject-id'' \<mapsto> ''userid'', ''x-auth-roles'' \<mapsto> ''roles''],
       RequestIdHeader = [] \<rparr>"

definition attribute_to_header_service :: RemoteAuthService where
  "attribute_to_header_service =
     \<lparr> AuthUrl = ''http://auth.example/check'',
       ForwardRequestHeaders = Map.empty,
       AttributesToHeadersMap = [''userid'' \<mapsto> ''x-auth-subject-id'', ''roles'' \<mapsto> ''x-auth-roles''],
       RequestIdHeader = [] \<rparr>"

text \<open>
  What section 4.2 of the specification says one mapping entry (attribute, header name)
  contributes for a decoded body: nothing when the attribute is missing from the body, nothing
  when its value is unsupported, and otherwise the one pair of the header name and the
  stringified value.
\<close>

definition spec_entry_headers ::
  "(64 word \<Rightarrow> string) \<Rightarrow> (string \<rightharpoonup> go_value) \<Rightarrow> string \<times> string \<Rightarrow> HeaderValueOption list" where
  "spec_entry_headers ff body entry =
     (case body (fst entry) of
        None \<Rightarrow> []
      | Some raw \<Rightarrow>
          (case stringifyValue ff raw of
             None \<Rightarrow> []
           | Some s \<Rightarrow> [\<lparr> Key = snd entry, Value = s \<rparr>]))"

text \<open>
  Scenario A, as in \<open>TestExtractHeaders\<close>: the decoded body
  \<open>{"userid":"123456", "isserver": true, "roles": ["admin", "user"]}\<close> and the mapping of four
  attributes to header names.
\<close>

definition scenarioA_body :: "string \<rightharpoonup> go_value" where
  "scenarioA_body =
     [''userid'' \<mapsto> VString ''123456'',
      ''isserver'' \<mapsto> VBool True,
      ''roles'' \<mapsto> VSlice [VString ''admin'', VString ''user'']]"

definition scenarioA_mapping :: "string \<rightharpoonup> string" where
  "scenarioA_mapping =
     [''userid'' \<mapsto> ''x-auth-subject-id'',
      ''isserver'' \<mapsto> ''x-auth-server-access'',
      ''roles'' \<mapsto> ''x-auth-roles'',
      ''not-present'' \<mapsto> ''x-auth-not-present'']"

definition scenarioA_headers :: "HeaderValueOption list" where
  "scenarioA_headers =
     [\<lparr> Key = ''x-auth-subject-id'', Value = ''123456'' \<rparr>,
      \<lparr> Key = ''x-auth-server-access'', Value = ''true'' \<rparr>,
      \<lparr> Key = ''x-auth-roles'', Value = ''admin,user'' \<rparr>]"

text \<open>
  Sample runtimes: every URL is accepted, the remote service is a function of the request it
  is sent, and the decoder knows three bodies, the text of scenario A, an object whose
  \<open>roles\<close> are the empty array, and the empty object, and fails on any other.
\<close>

definition scenarioA_text :: string where
  "scenarioA_text = ''{\"userid\":\"123456\", \"isserver\": true, \"roles\": [\"admin\", \"user\"]}''"

definition empty_roles_text :: string where
  "empty_roles_text = ''{\"roles\": []}''"

definition sample_Decode :: "string \<Rightarrow> error + (string \<rightharpoonup> go_value)" where
  "sample_Decode body =
     (if body = scenarioA_text then Inr scenarioA_body
      else if body = empty_roles_text then Inr [''roles'' \<mapsto> VSlice []]
      else if body = ''{}'' then Inr Map.empty
      else Inl (Error ''invalid character''))"

definition accept_url :: "string \<Rightarrow> error option" where
  "accept_url url = None"

definition sample_runtime :: "(Request \<Rightarrow> error + Response) \<Rightarrow> runtime" where
  "sample_runtime remote =
     \<lparr> Sprintf_float = sample_Sprintf_float,
       NewRequest_error = accept_url,
       Do = remote,
       Decode = sample_Decode \<rparr>"

definition remote_replying :: "int \<Rightarrow> string \<Rightarrow> Request \<Rightarrow> error + Response" where
  "remote_replying status body request = Inr \<lparr> StatusCode = status, Body = body \<rparr>"

text \<open>
  A service for scenario A: two forwarded headers, the mapping of scenario A, and the
  correlation identifier read from \<open>x-request-id\<close>, which is not forwarded.
\<close>

definition scenarioA_service :: RemoteAuthService where
  "scenarioA_service =
     \<lparr> AuthUrl = ''http://auth.example/check'',
       ForwardRequestHeaders = [''authorization'' \<mapsto> True, ''x-tidepool-session-token'' \<mapsto> True],
       AttributesToHeadersMap = scenarioA_mapping,
       RequestIdHeader = ''x-request-id'' \<rparr>"

text \<open>
  A service that reads the correlation identifier from \<open>x-request-id\<close> and also forwards
  that header; a remote service that answers 200 to the requests whose \<open>x-request-id\<close> is
  \<open>trusted\<close> and 403 to the others; an inbound request that has only this header.
\<close>

definition tracing_service :: RemoteAuthService where
  "tracing_service =
     \<lparr> AuthUrl = ''http://auth.example/check'',
       ForwardRequestHeaders = [''x-request-id'' \<mapsto> True],
       AttributesToHeadersMap = Map.empty,
       RequestIdHeader = ''x-request-id'' \<rparr>"

definition remote_checking_request_id :: "Request \<Rightarrow> error + Response" where
  "remote_checking_request_id request =
     Inr \<lparr> StatusCode = (if (''x-request-id'', ''trusted'') \<in> set (Header request) then 200 else 403),
           Body = ''{}'' \<rparr>"

definition request_with_id :: "string \<Rightarrow> AuthorizationRequest" where
  "request_with_id rid = \<lparr> GetHeaders = [''x-request-id'' \<mapsto> rid] \<rparr>"

text \<open>The inbound request \<open>inbound_request\<close> with a correlation header added.\<close>

definition inbound_request_with_id :: AuthorizationRequest where
  "inbound_request_with_id =
     \<lparr> GetHeaders = [''cookie'' \<mapsto> ''c=1'', ''authorization'' \<mapsto> ''Bearer t'',
                      ''X-Tidepool-Session-Token'' \<mapsto> ''s'', ''x-request-id'' \<mapsto> ''abc''] \<rparr>"

definition forbidden_response :: Response where
  "forbidden_response = \<lparr> StatusCode = 403, Body = scenarioA_text \<rparr>"


section \<open>Properties of \<open>stringifyValue\<close>\<close>

lemma stringifyElems_acc:
  "stringifyElems ff xs arr = arr @ List.map_filter (stringifyValue ff) xs"
  by (induction xs arbitrary: arr) (auto simp: List.map_filter_simps split: option.splits)

lemma map_filter_supported:
  "List.map_filter f xs = map (\<lambda>x. the (f x)) (filter (\<lambda>x. f x \<noteq> None) xs)"
  by (induction xs) (auto simp: List.map_filter_simps split: option.splits)

lemma stringifyValue_array:
  "stringifyValue ff (VSlice xs) = Some (Join (List.map_filter (stringifyValue ff) xs) '','')"
  "stringifyValue ff (VArray xs) = Some (Join (List.map_filter (stringifyValue ff) xs) '','')"
  by (simp_all add: stringifyElems_acc)

text \<open>
  The scalars the switch lists are supported: booleans, floats, strings, and the integers
  of kind \<open>Int\<close>, \<open>Int8\<close>, \<open>Int32\<close>, \<open>Int64\<close>, \<open>Uint\<close>, \<open>Uint8\<close>, \<open>Uint32\<close>, \<open>Uint64\<close>.
\<close>

lemma stringifyValue_listed_scalars:
  "stringifyValue ff (VBool b) = Some (FormatBool b)"
  "k \<notin> {reflect_Int16} \<Longrightarrow> stringifyValue ff (VInt k w) = Some (FormatInt (sint w))"
  "k' \<notin> {reflect_Uint16, reflect_Uintptr} \<Longrightarrow> stringifyValue ff (VUint k' w) = Some (FormatUint (unat w))"
  "stringifyValue ff (VFloat fk w) = Some (ff w)"
  "stringifyValue ff (VString s) = Some s"
  by (cases k; cases k'; simp)+


text \<open>
  C8. A JSON object and the null value stringify to nil (unsupported), not to a string.
  The function is total: every kind reaches a branch of the switch, the accessor called in
  a branch is the one of that kind, and the default branch returns nil.
\<close>

theorem stringifyValue_object_and_null_unsupported:
  "stringifyValue ff (VMap m) = None \<and> stringifyValue ff VNil = None"
  by simp

text \<open>
  C3. The claim (an array with an unsupported element is unsupported as a whole) does not
  hold: the loop of the \<open>Slice\<close>/\<open>Array\<close> case appends an element's string only when it is
  not nil, and joins what it has. The null in the middle of \<open>["a", null, "b"]\<close> is dropped.
\<close>

theorem stringifyValue_array_drops_unsupported_element:
  "stringifyValue sample_Sprintf_float VNil = None
   \<and> stringifyValue sample_Sprintf_float (VSlice [VString ''a'', VNil, VString ''b''])
       = Some ''a,b''"
  by simp

text \<open>
  C3, as amended. An array (slice or array kind) is always supported: its string is the
  comma-join of the stringifications of those elements that are supported, in the order of
  the elements; the unsupported elements are skipped.
\<close>

theorem stringifyValue_array_joins_supported_elements:
  "stringifyValue ff (VSlice xs)
     = Some (Join (map (\<lambda>x. the (stringifyValue ff x))
                       (filter (\<lambda>x. stringifyValue ff x \<noteq> None) xs)) '','')
   \<and> stringifyValue ff (VArray xs)
     = Some (Join (map (\<lambda>x. the (stringifyValue ff x))
                       (filter (\<lambda>x. stringifyValue ff x \<noteq> None) xs)) '','')"
  by (simp add: stringifyElems_acc map_filter_supported)

lemma json_scalar_decoded: "json_scalar v \<Longrightarrow> json_decoded v"
  by (cases v) simp_all

text \<open>
  Of the values decoded from JSON, only null and the objects are unsupported; none is of an
  integer kind, so the integer branches of the switch, and the kinds \<open>Int16\<close>, \<open>Uint16\<close> and
  \<open>Uintptr\<close> that they do not list, are never reached from a response body.
\<close>

lemma json_decoded_supported:
  "json_decoded v \<Longrightarrow> (stringifyValue ff v = None) = (v = VNil \<or> (\<exists>m. v = VMap m))"
  by (cases v) simp_all

lemma json_decoded_never_integer:
  "json_decoded v \<Longrightarrow> v \<noteq> VInt k w \<and> v \<noteq> VUint k' w'"
  by (cases v) simp_all

lemma stringifyValue_kinds_not_listed:
  "stringifyValue ff (VInt reflect_Int16 7) = None
   \<and> stringifyValue ff (VUint reflect_Uint16 7) = None
   \<and> stringifyValue ff (VInt reflect_Int8 7) = Some ''7''
   \<and> stringifyValue ff (VInt reflect_Int32 7) = Some ''7''"
  by code_simp



section \<open>Ranging over a map\<close>

lemma range_of_Nil [simp]: "range_of m [] = []"
  by (simp add: range_of_def List.map_filter_simps)

lemma range_of_Cons:
  "range_of m (k # ks) = (case m k of Some v \<Rightarrow> (k, v) # range_of m ks | None \<Rightarrow> range_of m ks)"
  by (simp add: range_of_def List.map_filter_simps split: option.splits)

lemma set_range_of: "set (range_of m ks) = {(k, v). k \<in> set ks \<and> m k = Some v}"
  by (induction ks) (auto simp: range_of_Cons split: option.splits)

lemma fst_range_of: "map fst (range_of m ks) = filter (\<lambda>k. m k \<noteq> None) ks"
  by (induction ks) (auto simp: range_of_Cons split: option.splits)

lemma range_of_iteration_order:
  assumes "iteration_order m ks"
  shows "set (range_of m ks) = {(k, v). m k = Some v}"
    and "distinct (map fst (range_of m ks))"
    and "map fst (range_of m ks) = ks"
proof -
  from assms have d: "distinct ks" and s: "set ks = dom m"
    by (simp_all add: iteration_order_def)
  show "set (range_of m ks) = {(k, v). m k = Some v}"
    using s by (auto simp: set_range_of)
  have "filter (\<lambda>k. m k \<noteq> None) ks = ks"
    using s by (auto simp: filter_id_conv)
  then show "map fst (range_of m ks) = ks"
    by (simp add: fst_range_of)
  then show "distinct (map fst (range_of m ks))"
    using d by simp
qed

section \<open>Properties of \<open>forwardAllowedHeaders\<close> and \<open>GetAuthService\<close>\<close>

lemma forwardLoop_Header:
  "Header (forwardLoop headers kvs r) =
     Header r @ List.map_filter (\<lambda>(key, sf). if sf then map_option (Pair key) (headers key) else None) kvs"
  by (induction headers kvs r rule: forwardLoop.induct)
     (auto simp: List.map_filter_simps Header_Add_def split: option.splits)

lemma forwardLoop_frame:
  "Method (forwardLoop headers kvs r) = Method r \<and> URL (forwardLoop headers kvs r) = URL r"
  by (induction headers kvs r rule: forwardLoop.induct)
     (auto simp: Header_Add_def split: option.splits)

lemma forwardLoop_part_000_Header:
  "Header (forwardLoop_part_000 fwd kvs r) =
     Header r @ filter (\<lambda>(key, val). fwd key = Some True) kvs"
  by (induction fwd kvs r rule: forwardLoop_part_000.induct)
     (auto simp: Header_Add_def split: option.splits)

lemma forwardLoop_part_000_frame:
  "Method (forwardLoop_part_000 fwd kvs r) = Method r \<and> URL (forwardLoop_part_000 fwd kvs r) = URL r"
  by (induction fwd kvs r rule: forwardLoop_part_000.induct)
     (auto simp: Header_Add_def split: option.splits)

lemma forwardHeadersMap_loop_eq:
  "forwardHeadersMap_loop vs m = (\<lambda>k. if k \<in> set vs then Some True else m k)"
  by (induction vs arbitrary: m) (auto simp: fun_eq_iff)

lemma set_map_filter: "set (List.map_filter f xs) = {y. \<exists>x \<in> set xs. f x = Some y}"
  by (induction xs) (auto simp: List.map_filter_simps split: option.splits)

lemma forwardAllowedHeaders_set:
  assumes "iteration_order (RemoteAuthService.ForwardRequestHeaders c) ks"
  shows "set (Header (forwardAllowedHeaders ks c r a)) =
     set (Header r) \<union> {(k, v). RemoteAuthService.ForwardRequestHeaders c k = Some True \<and> GetHeaders a k = Some v}"
  using range_of_iteration_order(1)[OF assms]
  by (auto simp: forwardAllowedHeaders_def forwardLoop_Header set_map_filter split: if_splits)

lemma forwardAllowedHeaders_part_000_set:
  assumes "iteration_order (GetHeaders a) ks"
  shows "set (Header (forwardAllowedHeaders_part_000 ks c r a)) =
     set (Header r) \<union> {(k, v). RemoteAuthService.ForwardRequestHeaders c k = Some True \<and> GetHeaders a k = Some v}"
  using range_of_iteration_order(1)[OF assms]
  by (auto simp: forwardAllowedHeaders_part_000_def forwardLoop_part_000_Header)

lemma distinct_fst_map_filter:
  "distinct (map fst kvs) \<Longrightarrow>
   distinct (map fst (List.map_filter (\<lambda>(key, sf). if sf then map_option (Pair key) (g key) else None) kvs))"
proof (induction kvs)
  case Nil
  then show ?case by (simp add: List.map_filter_simps)
next
  case (Cons kv kvs)
  obtain k sf where kv: "kv = (k, sf)" by (cases kv)
  have "k \<notin> fst ` set (List.map_filter (\<lambda>(key, sf). if sf then map_option (Pair key) (g key) else None) kvs)"
    using Cons.prems kv by (force simp: set_map_filter split: if_splits)
  then show ?case
    using Cons kv by (auto simp: List.map_filter_simps split: option.splits)
qed

lemma forwardAllowedHeaders_distinct:
  assumes "iteration_order (RemoteAuthService.ForwardRequestHeaders c) ks" "Header r = []"
  shows "distinct (map fst (Header (forwardAllowedHeaders ks c r a)))"
  using range_of_iteration_order(2)[OF assms(1)] assms(2)
  by (simp add: forwardAllowedHeaders_def forwardLoop_Header distinct_fst_map_filter)

lemma forwardAllowedHeaders_part_000_distinct:
  assumes "iteration_order (GetHeaders a) ks" "Header r = []"
  shows "distinct (map fst (Header (forwardAllowedHeaders_part_000 ks c r a)))"
  using range_of_iteration_order(2)[OF assms(1)] assms(2)
  by (simp add: forwardAllowedHeaders_part_000_def forwardLoop_part_000_Header distinct_map_filter)

lemma GetAuthService_Inr:
  "GetAuthService (ConfigPtr config) = Inr c \<Longrightarrow>
     RemoteAuthService.ForwardRequestHeaders c = (\<lambda>k. if k \<in> set (Config.ForwardRequestHeaders config) then Some True else None)
   \<and> AttributesToHeadersMap c = ResponseHeaders config
   \<and> RemoteAuthService.AuthUrl c = Config.AuthUrl config
   \<and> RemoteAuthService.RequestIdHeader c = Config.RequestIdHeader config"
  by (auto simp: GetAuthService_def forwardHeadersMap_loop_eq)

lemma GetAuthService_part_000_Inr:
  "GetAuthService_part_000 ks (ConfigPtr config) = Inr c \<Longrightarrow>
     RemoteAuthService.ForwardRequestHeaders c = (\<lambda>k. if k \<in> set (Config.ForwardRequestHeaders config) then Some True else None)
   \<and> AttributesToHeadersMap c = attributesToHeaderMap_loop (range_of (ResponseHeaders config) ks) Map.empty
   \<and> RemoteAuthService.AuthUrl c = Config.AuthUrl config
   \<and> RemoteAuthService.RequestIdHeader c = []"
  by (auto simp: GetAuthService_part_000_def forwardHeadersMap_loop_eq)

lemma forwarded_characterisation:
  assumes mem: "\<And>key val. (key, val) \<in> set out \<longleftrightarrow> key \<in> allow \<and> headers key = Some val"
  shows "fst ` set out \<subseteq> allow"
    and "fst ` set out = allow \<longleftrightarrow> allow \<subseteq> dom headers"
proof -
  have eq: "fst ` set out = allow \<inter> dom headers"
    using mem by (force simp: image_iff dom_def)
  show "fst ` set out \<subseteq> allow" using eq by simp
  show "fst ` set out = allow \<longleftrightarrow> allow \<subseteq> dom headers" using eq by auto
qed

text \<open>
  C5. The service is the one \<open>GetAuthService\<close> builds from a configuration, whose
  \<open>ForwardRequestHeaders\<close> is the allow-list; the outbound request starts with no header, as
  \<open>http.NewRequestWithContext\<close> returns it. Whatever order the runtime ranges in, a pair
  (name, value) is added to the outbound request exactly when the name is on the allow-list
  (string equality) and the inbound headers map it to that value; no name is added twice; the
  names added are a subset of the allow-list, and all of it exactly when every name of the
  allow-list is present inbound; an empty allow-list adds nothing. The variant of
  \<open>src/unnamed/part_000\<close>, which ranges over the inbound headers instead, adds the same
  headers (in a possibly different order).
\<close>

theorem forwardAllowedHeaders_allow_list:
  assumes new: "Header remoteRequest = []"
    and svc: "GetAuthService (ConfigPtr config) = Inr c"
    and fo: "iteration_order (RemoteAuthService.ForwardRequestHeaders c) ks"
    and svc0: "GetAuthService_part_000 ks0 (ConfigPtr config) = Inr c0"
    and fo0: "iteration_order (GetHeaders authzRequest) ks'"
  shows "(\<forall>key val. (key, val) \<in> set (Header (forwardAllowedHeaders ks c remoteRequest authzRequest))
            \<longleftrightarrow> key \<in> set (Config.ForwardRequestHeaders config) \<and> GetHeaders authzRequest key = Some val)
    \<and> distinct (map fst (Header (forwardAllowedHeaders ks c remoteRequest authzRequest)))
    \<and> fst ` set (Header (forwardAllowedHeaders ks c remoteRequest authzRequest))
         \<subseteq> set (Config.ForwardRequestHeaders config)
    \<and> (fst ` set (Header (forwardAllowedHeaders ks c remoteRequest authzRequest))
          = set (Config.ForwardRequestHeaders config)
        \<longleftrightarrow> set (Config.ForwardRequestHeaders config) \<subseteq> dom (GetHeaders authzRequest))
    \<and> (Config.ForwardRequestHeaders config = []
        \<longrightarrow> Header (forwardAllowedHeaders ks c remoteRequest authzRequest) = [])
    \<and> mset (Header (forwardAllowedHeaders_part_000 ks' c0 remoteRequest authzRequest))
         = mset (Header (forwardAllowedHeaders ks c remoteRequest authzRequest))"
proof -
  let ?out = "Header (forwardAllowedHeaders ks c remoteRequest authzRequest)"
  let ?outp = "Header (forwardAllowedHeaders_part_000 ks' c0 remoteRequest authzRequest)"
  let ?allow = "set (Config.ForwardRequestHeaders config)"
  have fwd: "RemoteAuthService.ForwardRequestHeaders c = (\<lambda>k. if k \<in> ?allow then Some True else None)"
    using GetAuthService_Inr[OF svc] by simp
  have fwd0: "RemoteAuthService.ForwardRequestHeaders c0 = (\<lambda>k. if k \<in> ?allow then Some True else None)"
    using GetAuthService_part_000_Inr[OF svc0] by simp
  have mem: "(key, val) \<in> set ?out \<longleftrightarrow> key \<in> ?allow \<and> GetHeaders authzRequest key = Some val"
    for key val
    using forwardAllowedHeaders_set[OF fo, of remoteRequest authzRequest] new
    by (simp add: fwd)
  have mem0: "(key, val) \<in> set ?outp \<longleftrightarrow> key \<in> ?allow \<and> GetHeaders authzRequest key = Some val"
    for key val
    using forwardAllowedHeaders_part_000_set[OF fo0, of c0 remoteRequest] new
    by (simp add: fwd0)
  have d: "distinct (map fst ?out)"
    by (rule forwardAllowedHeaders_distinct[OF fo new])
  have d0: "distinct (map fst ?outp)"
    by (rule forwardAllowedHeaders_part_000_distinct[OF fo0 new])
  have empty: "Config.ForwardRequestHeaders config = [] \<longrightarrow> ?out = []"
  proof
    assume "Config.ForwardRequestHeaders config = []"
    then have none: "(key, val) \<notin> set ?out" for key val
      by (simp add: mem)
    show "?out = []"
    proof (cases ?out)
      case Nil
      then show ?thesis .
    next
      case (Cons p ps)
      then have "(fst p, snd p) \<in> set ?out" by simp
      with none show ?thesis by blast
    qed
  qed
  have "set ?outp = set ?out" using mem mem0 by auto
  moreover have "distinct ?out" "distinct ?outp"
    using d d0 by (auto simp: distinct_map)
  ultimately have perm: "mset ?outp = mset ?out"
    by (simp add: set_eq_iff_mset_eq_distinct)
  show ?thesis
    using mem d forwarded_characterisation[of ?out ?allow "GetHeaders authzRequest", OF mem] empty perm
    by blast
qed

text \<open>
  The theorem at the sample inputs: the allow-listed \<open>authorization\<close> is forwarded, the
  \<open>cookie\<close> is not, and \<open>X-Tidepool-Session-Token\<close> is not either, the allow-list naming it
  in lower case.
\<close>

theorem forwardAllowedHeaders_allow_list_witness:
  "GetAuthService (ConfigPtr forwarding_config) = Inr forwarding_service
   \<and> GetAuthService_part_000 [] (ConfigPtr forwarding_config) = Inr forwarding_service
   \<and> iteration_order (RemoteAuthService.ForwardRequestHeaders forwarding_service)
         [''x-tidepool-session-token'', ''authorization'']
   \<and> iteration_order (GetHeaders inbound_request)
         [''authorization'', ''X-Tidepool-Session-Token'', ''cookie'']
   \<and> Header (forwardAllowedHeaders [''x-tidepool-session-token'', ''authorization'']
         forwarding_service new_request inbound_request) = [(''authorization'', ''Bearer t'')]
   \<and> fst ` set (Header (forwardAllowedHeaders [''x-tidepool-session-token'', ''authorization'']
         forwarding_service new_request inbound_request))
       \<subseteq> set (Config.ForwardRequestHeaders forwarding_config)
   \<and> mset (Header (forwardAllowedHeaders_part_000
         [''authorization'', ''X-Tidepool-Session-Token'', ''cookie'']
         forwarding_service new_request inbound_request))
       = mset (Header (forwardAllowedHeaders [''x-tidepool-session-token'', ''authorization'']
         forwarding_service new_request inbound_request))"
proof -
  have new: "Header new_request = []"
    by (simp add: new_request_def)
  have svc: "GetAuthService (ConfigPtr forwarding_config) = Inr forwarding_service"
    by (simp add: GetAuthService_def forwarding_config_def forwarding_service_def)
  have svc0: "GetAuthService_part_000 [] (ConfigPtr forwarding_config) = Inr forwarding_service"
    by (simp add: GetAuthService_part_000_def forwarding_config_def forwarding_service_def
        range_of_def List.map_filter_simps)
  have fo: "iteration_order (RemoteAuthService.ForwardRequestHeaders forwarding_service)
         [''x-tidepool-session-token'', ''authorization'']"
    by (auto simp: iteration_order_def forwarding_service_def)
  have fo0: "iteration_order (GetHeaders inbound_request)
         [''authorization'', ''X-Tidepool-Session-Token'', ''cookie'']"
    by (auto simp: iteration_order_def inbound_request_def)
  have out: "Header (forwardAllowedHeaders [''x-tidepool-session-token'', ''authorization'']
         forwarding_service new_request inbound_request) = [(''authorization'', ''Bearer t'')]"
    by (simp add: forwardAllowedHeaders_def forwarding_service_def new_request_def
        inbound_request_def range_of_def List.map_filter_simps Header_Add_def)
  show ?thesis
    using forwardAllowedHeaders_allow_list [OF new svc fo svc0 fo0] new svc svc0 fo fo0 out
    by simp
qed

section \<open>The direction of \<open>ResponseHeaders\<close>\<close>

lemma attributesToHeaderMap_loop_Some:
  "attributesToHeaderMap_loop kvs m a = Some h \<Longrightarrow> (h, a) \<in> set kvs \<or> m a = Some h"
  by (induction kvs m rule: attributesToHeaderMap_loop.induct) (auto split: if_splits)

lemma attributesToHeaderMap_loop_dom:
  "dom (attributesToHeaderMap_loop kvs m) = dom m \<union> snd ` set kvs"
proof (induction kvs arbitrary: m)
  case Nil
  show ?case by simp
next
  case (Cons kv kvs)
  obtain h a where kv: "kv = (h, a)" by (cases kv)
  show ?case
    unfolding kv attributesToHeaderMap_loop.simps Cons.IH by simp
qed

lemma ran_as_image: "snd ` {(k, v). m k = Some v} = ran m"
  by (force simp: ran_def image_iff)

text \<open>
  C6. \<open>GetAuthService\<close> of \<open>impl.go\<close> does not invert \<open>config.ResponseHeaders\<close>: it assigns
  it to \<open>attributesToHeaderMap\<close> as it is. For a configuration written in the direction
  outbound header name to remote attribute name, the lookup map of the service has no entry
  for the attribute \<open>userid\<close>, and maps the header name to the attribute name.
\<close>

theorem GetAuthService_response_headers_direction_counterexample:
  "GetAuthService (ConfigPtr header_to_attribute_config) = Inr header_to_attribute_service
   \<and> ResponseHeaders header_to_attribute_config ''x-auth-subject-id'' = Some ''userid''
   \<and> AttributesToHeadersMap header_to_attribute_service ''userid'' = None
   \<and> AttributesToHeadersMap header_to_attribute_service ''x-auth-subject-id'' = Some ''userid''"
  by (simp add: GetAuthService_def header_to_attribute_config_def header_to_attribute_service_def)

text \<open>
  C6, as amended. \<open>GetAuthService\<close> of \<open>impl.go\<close> uses \<open>config.ResponseHeaders\<close> unchanged as
  the lookup map of the service, so the configuration is read in the direction remote attribute
  name to outbound header name. The variant of \<open>src/unnamed/part_000\<close> inverts: every entry
  of its lookup map is an entry of the configuration the other way round, the keys of the
  lookup map are the attributes the configuration names, and when no two header names of the
  configuration share an attribute the lookup map is exactly the inverse.
\<close>

theorem GetAuthService_response_headers_direction:
  "(\<forall>config c. GetAuthService (ConfigPtr config) = Inr c
       \<longrightarrow> AttributesToHeadersMap c = ResponseHeaders config)
   \<and> (\<forall>config ks c0.
         iteration_order (ResponseHeaders config) ks
         \<and> GetAuthService_part_000 ks (ConfigPtr config) = Inr c0
       \<longrightarrow> (\<forall>attribute header. AttributesToHeadersMap c0 attribute = Some header
               \<longrightarrow> ResponseHeaders config header = Some attribute)
         \<and> dom (AttributesToHeadersMap c0) = ran (ResponseHeaders config)
         \<and> (inj_on (ResponseHeaders config) (dom (ResponseHeaders config))
            \<longrightarrow> (\<forall>attribute header. AttributesToHeadersMap c0 attribute = Some header
                    \<longleftrightarrow> ResponseHeaders config header = Some attribute)))"
proof (intro conjI allI impI)
  fix config c
  assume "GetAuthService (ConfigPtr config) = Inr c"
  then show "AttributesToHeadersMap c = ResponseHeaders config"
    using GetAuthService_Inr by blast
next
  fix config ks c0
  assume a: "iteration_order (ResponseHeaders config) ks
         \<and> GetAuthService_part_000 ks (ConfigPtr config) = Inr c0"
  let ?kvs = "range_of (ResponseHeaders config) ks"
  have m: "AttributesToHeadersMap c0 = attributesToHeaderMap_loop ?kvs Map.empty"
    using a GetAuthService_part_000_Inr by blast
  have s: "set ?kvs = {(h, a). ResponseHeaders config h = Some a}"
    using a range_of_iteration_order(1) by blast
  have sound: "ResponseHeaders config header = Some attribute"
    if "AttributesToHeadersMap c0 attribute = Some header" for attribute header
    using attributesToHeaderMap_loop_Some[of ?kvs Map.empty attribute header] that
    by (simp add: m s)
  have d: "dom (AttributesToHeadersMap c0) = ran (ResponseHeaders config)"
    by (simp add: m attributesToHeaderMap_loop_dom s ran_as_image)
  {
    fix attribute header
    assume "AttributesToHeadersMap c0 attribute = Some header"
    then show "ResponseHeaders config header = Some attribute" by (rule sound)
  }
  show "dom (AttributesToHeadersMap c0) = ran (ResponseHeaders config)" by (rule d)
  {
    fix attribute header
    assume inj: "inj_on (ResponseHeaders config) (dom (ResponseHeaders config))"
    show "AttributesToHeadersMap c0 attribute = Some header
            \<longleftrightarrow> ResponseHeaders config header = Some attribute"
    proof
      assume "AttributesToHeadersMap c0 attribute = Some header"
      then show "ResponseHeaders config header = Some attribute" by (rule sound)
    next
      assume r: "ResponseHeaders config header = Some attribute"
      then have "attribute \<in> dom (AttributesToHeadersMap c0)"
        by (auto simp: d ran_def)
      then obtain h' where h': "AttributesToHeadersMap c0 attribute = Some h'"
        by blast
      then have "ResponseHeaders config h' = Some attribute" by (rule sound)
      with r inj have "h' = header"
        by (auto dest!: inj_onD[where x = h' and y = header])
      with h' show "AttributesToHeadersMap c0 attribute = Some header" by simp
    qed
  }
qed

theorem GetAuthService_response_headers_direction_witness:
  "GetAuthService (ConfigPtr header_to_attribute_config) = Inr header_to_attribute_service
   \<and> AttributesToHeadersMap header_to_attribute_service
       = ResponseHeaders header_to_attribute_config
   \<and> iteration_order (ResponseHeaders header_to_attribute_config)
         [''x-auth-subject-id'', ''x-auth-roles'']
   \<and> GetAuthService_part_000 [''x-auth-subject-id'', ''x-auth-roles'']
         (ConfigPtr header_to_attribute_config) = Inr attribute_to_header_service
   \<and> inj_on (ResponseHeaders header_to_attribute_config)
         (dom (ResponseHeaders header_to_attribute_config))
   \<and> dom (AttributesToHeadersMap attribute_to_header_service)
       = ran (ResponseHeaders header_to_attribute_config)
   \<and> (AttributesToHeadersMap attribute_to_header_service ''userid'' = Some ''x-auth-subject-id'')
       = (ResponseHeaders header_to_attribute_config ''x-auth-subject-id'' = Some ''userid'')
   \<and> AttributesToHeadersMap attribute_to_header_service ''userid'' = Some ''x-auth-subject-id''"
proof -
  have svc: "GetAuthService (ConfigPtr header_to_attribute_config) = Inr header_to_attribute_service"
    by (simp add: GetAuthService_def header_to_attribute_config_def
        header_to_attribute_service_def)
  have ord: "iteration_order (ResponseHeaders header_to_attribute_config)
         [''x-auth-subject-id'', ''x-auth-roles'']"
    by (auto simp: iteration_order_def header_to_attribute_config_def)
  have svc0: "GetAuthService_part_000 [''x-auth-subject-id'', ''x-auth-roles'']
         (ConfigPtr header_to_attribute_config) = Inr attribute_to_header_service"
    by (simp add: GetAuthService_part_000_def header_to_attribute_config_def
        attribute_to_header_service_def range_of_def List.map_filter_simps)
  have inj: "inj_on (ResponseHeaders header_to_attribute_config)
         (dom (ResponseHeaders header_to_attribute_config))"
    by (simp add: header_to_attribute_config_def)
  have val: "AttributesToHeadersMap attribute_to_header_service ''userid''
      = Some ''x-auth-subject-id''"
    by (simp add: attribute_to_header_service_def)
  have impl: "AttributesToHeadersMap header_to_attribute_service
       = ResponseHeaders header_to_attribute_config"
    using GetAuthService_response_headers_direction svc by blast
  have "iteration_order (ResponseHeaders header_to_attribute_config)
           [''x-auth-subject-id'', ''x-auth-roles'']
        \<and> GetAuthService_part_000 [''x-auth-subject-id'', ''x-auth-roles'']
             (ConfigPtr header_to_attribute_config) = Inr attribute_to_header_service"
    using ord svc0 by simp
  then have inv: "dom (AttributesToHeadersMap attribute_to_header_service)
         = ran (ResponseHeaders header_to_attribute_config)
       \<and> (inj_on (ResponseHeaders header_to_attribute_config)
            (dom (ResponseHeaders header_to_attribute_config))
          \<longrightarrow> (\<forall>attribute header.
                 AttributesToHeadersMap attribute_to_header_service attribute = Some header
                 \<longleftrightarrow> ResponseHeaders header_to_attribute_config header = Some attribute))"
    using GetAuthService_response_headers_direction by blast
  show ?thesis
    using svc impl ord svc0 inj inv val by simp
qed

section \<open>Properties of \<open>extractResponseHeaders\<close>\<close>

lemma extractLoop_acc:
  "extractLoop ff body kvs acc = acc @ concat (map (spec_entry_headers ff body) kvs)"
  by (induction ff body kvs acc rule: extractLoop.induct)
     (auto simp: spec_entry_headers_def split: option.splits)

lemma iteration_orders_mset:
  assumes "iteration_order m ks" "iteration_order m ks'"
  shows "mset ks = mset ks'"
  using assms unfolding iteration_order_def by (metis set_eq_iff_mset_eq_distinct)

lemma mset_range_of:
  "mset (range_of m ks) = image_mset (\<lambda>k. (k, the (m k))) (filter_mset (\<lambda>k. m k \<noteq> None) (mset ks))"
  by (induction ks) (auto simp: range_of_Cons split: option.splits)

lemma mset_concat_map:
  "mset (concat (map f xs)) = sum_mset (image_mset (\<lambda>x. mset (f x)) (mset xs))"
  by (induction xs) simp_all

lemma extractLoop_any_order:
  assumes "iteration_order a2h ks" "iteration_order a2h ks'"
  shows "mset (extractLoop ff body (range_of a2h ks) []) = mset (extractLoop ff body (range_of a2h ks') [])"
  using iteration_orders_mset[OF assms]
  by (simp add: extractLoop_acc mset_concat_map mset_range_of)

lemma set_spec_entry_headers:
  "h \<in> set (spec_entry_headers ff body (attribute, header)) \<longleftrightarrow>
     (\<exists>raw. body attribute = Some raw \<and> stringifyValue ff raw = Some (Value h)
        \<and> header = Key h)"
  by (cases h; cases "body attribute"; cases "stringifyValue ff (the (body attribute))")
     (auto simp: spec_entry_headers_def)

lemma set_extractLoop:
  assumes "iteration_order a2h ks"
  shows "h \<in> set (extractLoop ff body (range_of a2h ks) []) \<longleftrightarrow>
     (\<exists>attribute raw. a2h attribute = Some (Key h) \<and> body attribute = Some raw
        \<and> stringifyValue ff raw = Some (Value h))"
proof -
  have "h \<in> set (extractLoop ff body (range_of a2h ks) []) \<longleftrightarrow>
      (\<exists>e \<in> set (range_of a2h ks). h \<in> set (spec_entry_headers ff body e))"
    by (simp add: extractLoop_acc)
  also have "\<dots> \<longleftrightarrow> (\<exists>attribute header. a2h attribute = Some header
      \<and> h \<in> set (spec_entry_headers ff body (attribute, header)))"
    by (simp add: range_of_iteration_order(1)[OF assms])
  also have "\<dots> \<longleftrightarrow> (\<exists>attribute raw. a2h attribute = Some (Key h) \<and> body attribute = Some raw
        \<and> stringifyValue ff raw = Some (Value h))"
    by (auto simp: set_spec_entry_headers)
  finally show ?thesis .
qed

lemma scenarioA_one_order:
  "iteration_order scenarioA_mapping [''userid'', ''isserver'', ''roles'', ''not-present'']"
  "extractLoop ff scenarioA_body
     (range_of scenarioA_mapping [''userid'', ''isserver'', ''roles'', ''not-present'']) []
   = scenarioA_headers"
  by (auto simp: iteration_order_def scenarioA_mapping_def scenarioA_body_def scenarioA_headers_def
      range_of_def List.map_filter_simps FormatBool_def)

text \<open>
  C4. Whatever order the runtime ranges over the mapping in, the headers extracted from a
  decoded body are, entry by entry, what \<open>spec_entry_headers\<close> says: nothing for an attribute
  that is missing from the body or whose value is unsupported, and otherwise the one pair of
  the header name and the stringified value; so a header is in the result exactly when some
  entry maps a present, supported attribute to its name and its value is that attribute's
  string. In scenario A the result is, in some order, the three headers \<open>scenarioA_headers\<close>.
\<close>

theorem extractResponseHeaders_per_entry:
  "(\<forall>ff body attributesToHeadersMap ks.
       iteration_order attributesToHeadersMap ks \<longrightarrow>
         extractLoop ff body (range_of attributesToHeadersMap ks) []
           = concat (map (spec_entry_headers ff body) (range_of attributesToHeadersMap ks))
       \<and> (\<forall>h. h \<in> set (extractLoop ff body (range_of attributesToHeadersMap ks) []) \<longleftrightarrow>
             (\<exists>attribute raw. attributesToHeadersMap attribute = Some (Key h)
                \<and> body attribute = Some raw \<and> stringifyValue ff raw = Some (Value h))))
   \<and> (\<forall>rt ks authzBody.
         iteration_order scenarioA_mapping ks \<and> Decode rt authzBody = Inr scenarioA_body \<longrightarrow>
           (\<exists>headers. extractResponseHeaders rt ks authzBody scenarioA_mapping = Inr headers
              \<and> mset headers = mset scenarioA_headers \<and> length headers = 3))"
proof (intro conjI allI impI)
  fix ff :: "64 word \<Rightarrow> string" and body :: "string \<rightharpoonup> go_value"
    and attributesToHeadersMap :: "string \<rightharpoonup> string" and ks
  assume ord: "iteration_order attributesToHeadersMap ks"
  show "extractLoop ff body (range_of attributesToHeadersMap ks) []
      = concat (map (spec_entry_headers ff body) (range_of attributesToHeadersMap ks))"
    by (simp add: extractLoop_acc)
  fix h
  show "h \<in> set (extractLoop ff body (range_of attributesToHeadersMap ks) []) \<longleftrightarrow>
      (\<exists>attribute raw. attributesToHeadersMap attribute = Some (Key h)
         \<and> body attribute = Some raw \<and> stringifyValue ff raw = Some (Value h))"
    by (rule set_extractLoop[OF ord])
next
  fix rt :: runtime and ks authzBody
  assume a: "iteration_order scenarioA_mapping ks \<and> Decode rt authzBody = Inr scenarioA_body"
  let ?hs = "extractLoop (Sprintf_float rt) scenarioA_body (range_of scenarioA_mapping ks) []"
  have r: "extractResponseHeaders rt ks authzBody scenarioA_mapping = Inr ?hs"
    using a by (simp add: extractResponseHeaders_def)
  have m: "mset ?hs = mset scenarioA_headers"
    using extractLoop_any_order[of scenarioA_mapping ks _ "Sprintf_float rt" scenarioA_body,
        OF _ scenarioA_one_order(1)] a
    by (simp add: scenarioA_one_order(2))
  then have "size (mset ?hs) = size (mset scenarioA_headers)" by simp
  then have l: "length ?hs = 3" by (simp add: scenarioA_headers_def)
  show "\<exists>headers. extractResponseHeaders rt ks authzBody scenarioA_mapping = Inr headers
      \<and> mset headers = mset scenarioA_headers \<and> length headers = 3"
    using r m l by blast
qed

text \<open>
  The theorem at scenario A, with the mapping ranged over in another order than it is written
  in: three headers, none for \<open>not-present\<close>.
\<close>

theorem extractResponseHeaders_per_entry_witness:
  "iteration_order scenarioA_mapping [''roles'', ''not-present'', ''userid'', ''isserver'']
   \<and> Decode (sample_runtime (remote_replying 200 scenarioA_text)) scenarioA_text
       = Inr scenarioA_body
   \<and> extractResponseHeaders (sample_runtime (remote_replying 200 scenarioA_text))
         [''roles'', ''not-present'', ''userid'', ''isserver''] scenarioA_text scenarioA_mapping
       = Inr [\<lparr> Key = ''x-auth-roles'', Value = ''admin,user'' \<rparr>,
              \<lparr> Key = ''x-auth-subject-id'', Value = ''123456'' \<rparr>,
              \<lparr> Key = ''x-auth-server-access'', Value = ''true'' \<rparr>]
   \<and> mset [\<lparr> Key = ''x-auth-roles'', Value = ''admin,user'' \<rparr>,
             \<lparr> Key = ''x-auth-subject-id'', Value = ''123456'' \<rparr>,
             \<lparr> Key = ''x-auth-server-access'', Value = ''true'' \<rparr>]
       = mset scenarioA_headers"
proof -
  let ?rt = "sample_runtime (remote_replying 200 scenarioA_text)"
  let ?ks = "[''roles'', ''not-present'', ''userid'', ''isserver'']"
  have ord: "iteration_order scenarioA_mapping ?ks"
    by (auto simp: iteration_order_def scenarioA_mapping_def)
  have dec: "Decode ?rt scenarioA_text = Inr scenarioA_body"
    by (simp add: sample_runtime_def sample_Decode_def)
  have run: "extractResponseHeaders ?rt ?ks scenarioA_text scenarioA_mapping
       = Inr [\<lparr> Key = ''x-auth-roles'', Value = ''admin,user'' \<rparr>,
              \<lparr> Key = ''x-auth-subject-id'', Value = ''123456'' \<rparr>,
              \<lparr> Key = ''x-auth-server-access'', Value = ''true'' \<rparr>]"
    by (simp add: extractResponseHeaders_def dec scenarioA_mapping_def scenarioA_body_def
        range_of_def List.map_filter_simps FormatBool_def)
  from extractResponseHeaders_per_entry ord dec
  obtain headers where "extractResponseHeaders ?rt ?ks scenarioA_text scenarioA_mapping = Inr headers"
    and "mset headers = mset scenarioA_headers"
    by blast
  with run ord dec show ?thesis by simp
qed

text \<open>
  C10. The empty array (of slice or array kind) stringifies to the empty string, a supported
  result; so when the decoded body holds an empty array for a mapped attribute, the extraction
  emits that attribute's header with the empty value.
\<close>

theorem empty_array_gives_empty_header:
  "stringifyValue ff (VSlice []) = Some []
   \<and> stringifyValue ff (VArray []) = Some []
   \<and> (\<forall>rt ks authzBody body attributesToHeadersMap attribute header.
         iteration_order attributesToHeadersMap ks
         \<and> Decode rt authzBody = Inr body
         \<and> attributesToHeadersMap attribute = Some header
         \<and> (body attribute = Some (VSlice []) \<or> body attribute = Some (VArray []))
       \<longrightarrow> (\<exists>headers. extractResponseHeaders rt ks authzBody attributesToHeadersMap = Inr headers
              \<and> \<lparr> Key = header, Value = [] \<rparr> \<in> set headers))"
proof (intro conjI allI impI)
  show "stringifyValue ff (VSlice []) = Some []" by simp
  show "stringifyValue ff (VArray []) = Some []" by simp
next
  fix rt :: runtime and ks authzBody and body :: "string \<rightharpoonup> go_value"
    and attributesToHeadersMap :: "string \<rightharpoonup> string" and attribute header
  assume a: "iteration_order attributesToHeadersMap ks
         \<and> Decode rt authzBody = Inr body
         \<and> attributesToHeadersMap attribute = Some header
         \<and> (body attribute = Some (VSlice []) \<or> body attribute = Some (VArray []))"
  let ?hs = "extractLoop (Sprintf_float rt) body (range_of attributesToHeadersMap ks) []"
  have r: "extractResponseHeaders rt ks authzBody attributesToHeadersMap = Inr ?hs"
    using a by (simp add: extractResponseHeaders_def)
  from a obtain raw where raw: "body attribute = Some raw"
    and s: "stringifyValue (Sprintf_float rt) raw = Some []"
    by auto
  have "\<lparr> Key = header, Value = [] \<rparr> \<in> set ?hs"
    using a raw s set_extractLoop[of attributesToHeadersMap ks "\<lparr> Key = header, Value = [] \<rparr>"
        "Sprintf_float rt" body]
    by auto
  with r show "\<exists>headers. extractResponseHeaders rt ks authzBody attributesToHeadersMap = Inr headers
              \<and> \<lparr> Key = header, Value = [] \<rparr> \<in> set headers"
    by blast
qed

text \<open>The theorem for the body \<open>{"roles": []}\<close> and the mapping of scenario A.\<close>

theorem empty_array_gives_empty_header_witness:
  "iteration_order scenarioA_mapping [''roles'', ''not-present'', ''userid'', ''isserver'']
   \<and> Decode (sample_runtime (remote_replying 200 empty_roles_text)) empty_roles_text
       = Inr [''roles'' \<mapsto> VSlice []]
   \<and> scenarioA_mapping ''roles'' = Some ''x-auth-roles''
   \<and> extractResponseHeaders (sample_runtime (remote_replying 200 empty_roles_text))
         [''roles'', ''not-present'', ''userid'', ''isserver''] empty_roles_text scenarioA_mapping
       = Inr [\<lparr> Key = ''x-auth-roles'', Value = [] \<rparr>]"
proof -
  let ?rt = "sample_runtime (remote_replying 200 empty_roles_text)"
  let ?ks = "[''roles'', ''not-present'', ''userid'', ''isserver'']"
  have ord: "iteration_order scenarioA_mapping ?ks"
    by (auto simp: iteration_order_def scenarioA_mapping_def)
  have dec: "Decode ?rt empty_roles_text = Inr [''roles'' \<mapsto> VSlice []]"
    by (simp add: sample_runtime_def sample_Decode_def empty_roles_text_def scenarioA_text_def)
  have m: "scenarioA_mapping ''roles'' = Some ''x-auth-roles''"
    by (simp add: scenarioA_mapping_def)
  have run: "extractResponseHeaders ?rt ?ks empty_roles_text scenarioA_mapping
       = Inr [\<lparr> Key = ''x-auth-roles'', Value = [] \<rparr>]"
    by (simp add: extractResponseHeaders_def dec scenarioA_mapping_def
        range_of_def List.map_filter_simps)
  have b: "[''roles'' \<mapsto> VSlice []] ''roles'' = Some (VSlice [])"
    by simp
  from empty_array_gives_empty_header ord dec m b
  obtain headers where "extractResponseHeaders ?rt ?ks empty_roles_text scenarioA_mapping = Inr headers"
    and "\<lparr> Key = ''x-auth-roles'', Value = [] \<rparr> \<in> set headers"
    by blast
  with run ord dec m show ?thesis by simp
qed

section \<open>Properties of \<open>Authorize\<close>\<close>

text \<open>
  C1. When the outbound request is built and sent and the remote service answers with a
  status other than 200, \<open>Authorize\<close> returns \<open>UnauthenticatedResponse\<close> and no error, whatever
  the body of the response is, and the body is not decoded: no \<open>DecodeBody\<close> is among the
  things the call did. The same holds for the variant of \<open>src/unnamed/part_000\<close>.
\<close>

theorem Authorize_non_200_denied:
  assumes new: "NewRequestWithContext rt ''GET'' (RemoteAuthService.AuthUrl c) = Inr remoteRequest"
    and status: "StatusCode response \<noteq> 200"
  shows "(Do rt (forwardAllowedHeaders fo c remoteRequest authzRequest) = Inr response \<longrightarrow>
            snd (Authorize rt fo ao c authzRequest) = Inr UnauthenticatedResponse
          \<and> (\<forall>body. DecodeBody body \<notin> set (fst (Authorize rt fo ao c authzRequest))))
       \<and> (Do rt (forwardAllowedHeaders_part_000 fo' c remoteRequest authzRequest) = Inr response \<longrightarrow>
            snd (Authorize_part_000 rt fo' ao c authzRequest) = Inr UnauthenticatedResponse
          \<and> (\<forall>body. DecodeBody body \<notin> set (fst (Authorize_part_000 rt fo' ao c authzRequest))))"
  using new status by (simp add: Authorize_def Authorize_part_000_def)

text \<open>
  The theorem for a remote service that answers 403 with the body of scenario A, a body that
  would decode: the verdict is the denial all the same, and nothing is decoded.
\<close>

theorem Authorize_non_200_denied_witness:
  "NewRequestWithContext (sample_runtime (remote_replying 403 scenarioA_text)) ''GET''
       (RemoteAuthService.AuthUrl scenarioA_service) = Inr new_request
   \<and> StatusCode forbidden_response \<noteq> 200
   \<and> Do (sample_runtime (remote_replying 403 scenarioA_text))
         (forwardAllowedHeaders [''authorization'', ''x-tidepool-session-token'']
            scenarioA_service new_request inbound_request) = Inr forbidden_response
   \<and> snd (Authorize (sample_runtime (remote_replying 403 scenarioA_text))
         [''authorization'', ''x-tidepool-session-token'']
         [''roles'', ''not-present'', ''userid'', ''isserver'']
         scenarioA_service inbound_request) = Inr UnauthenticatedResponse
   \<and> (\<forall>body. DecodeBody body \<notin> set (fst (Authorize
         (sample_runtime (remote_replying 403 scenarioA_text))
         [''authorization'', ''x-tidepool-session-token'']
         [''roles'', ''not-present'', ''userid'', ''isserver'']
         scenarioA_service inbound_request)))
   \<and> snd (Authorize_part_000 (sample_runtime (remote_replying 403 scenarioA_text))
         [''authorization'', ''X-Tidepool-Session-Token'', ''cookie'']
         [''roles'', ''not-present'', ''userid'', ''isserver'']
         scenarioA_service inbound_request) = Inr UnauthenticatedResponse"
proof -
  let ?rt = "sample_runtime (remote_replying 403 scenarioA_text)"
  have new: "NewRequestWithContext ?rt ''GET'' (RemoteAuthService.AuthUrl scenarioA_service)
      = Inr new_request"
    by (simp add: NewRequestWithContext_def sample_runtime_def accept_url_def
        scenarioA_service_def new_request_def)
  have status: "StatusCode forbidden_response \<noteq> 200"
    by (simp add: forbidden_response_def)
  have sent: "Do ?rt r = Inr forbidden_response" for r
    by (simp add: sample_runtime_def remote_replying_def forbidden_response_def)
  show ?thesis
    using Authorize_non_200_denied [OF new status,
        where fo = "[''authorization'', ''x-tidepool-session-token'']"
          and authzRequest = inbound_request
          and ao = "[''roles'', ''not-present'', ''userid'', ''isserver'']"
          and fo' = "[''authorization'', ''X-Tidepool-Session-Token'', ''cookie'']"]
      new status sent
    by simp
qed

text \<open>
  C2. When the remote service answers 200, \<open>Authorize\<close> decodes the body. If the decoder
  fails, \<open>Authorize\<close> returns the decoder's error and no verdict. If it yields the object
  \<open>data\<close>, \<open>Authorize\<close> returns \<open>AuthorizedResponse\<close> with exactly the headers that
  \<open>extractResponseHeaders\<close> produces from \<open>data\<close> and \<open>c.AttributesToHeadersMap\<close>.
\<close>

theorem Authorize_200_decodes_and_allows:
  assumes new: "NewRequestWithContext rt ''GET'' (RemoteAuthService.AuthUrl c) = Inr remoteRequest"
    and sent: "Do rt (forwardAllowedHeaders fo c remoteRequest authzRequest) = Inr response"
    and status: "StatusCode response = 200"
  shows "DecodeBody (Body response) \<in> set (fst (Authorize rt fo ao c authzRequest))
       \<and> (\<forall>err. Decode rt (Body response) = Inl err \<longrightarrow>
             snd (Authorize rt fo ao c authzRequest) = Inl err)
       \<and> (\<forall>data. Decode rt (Body response) = Inr data \<longrightarrow>
             extractResponseHeaders rt ao (Body response) (AttributesToHeadersMap c)
               = Inr (extractLoop (Sprintf_float rt) data (range_of (AttributesToHeadersMap c) ao) [])
           \<and> snd (Authorize rt fo ao c authzRequest)
               = Inr (AuthorizedResponse
                   (extractLoop (Sprintf_float rt) data (range_of (AttributesToHeadersMap c) ao) [])))"
  using new sent status
  by (auto simp: Authorize_def extractResponseHeaders_def split: sum.splits)

text \<open>
  The theorem for scenario A (status 200 and the body of scenario A: allowed, with the three
  headers), and for scenario C (status 200 and a body that does not decode: the decoder's
  error, and no verdict).
\<close>

theorem Authorize_200_decodes_and_allows_witness:
  "NewRequestWithContext (sample_runtime (remote_replying 200 scenarioA_text)) ''GET''
       (RemoteAuthService.AuthUrl scenarioA_service) = Inr new_request
   \<and> Do (sample_runtime (remote_replying 200 scenarioA_text))
         (forwardAllowedHeaders [''authorization'', ''x-tidepool-session-token'']
            scenarioA_service new_request inbound_request)
       = Inr \<lparr> StatusCode = 200, Body = scenarioA_text \<rparr>
   \<and> Decode (sample_runtime (remote_replying 200 scenarioA_text)) scenarioA_text
       = Inr scenarioA_body
   \<and> snd (Authorize (sample_runtime (remote_replying 200 scenarioA_text))
         [''authorization'', ''x-tidepool-session-token'']
         [''roles'', ''not-present'', ''userid'', ''isserver'']
         scenarioA_service inbound_request)
       = Inr (AuthorizedResponse
           [\<lparr> Key = ''x-auth-roles'', Value = ''admin,user'' \<rparr>,
            \<lparr> Key = ''x-auth-subject-id'', Value = ''123456'' \<rparr>,
            \<lparr> Key = ''x-auth-server-access'', Value = ''true'' \<rparr>])
   \<and> Decode (sample_runtime (remote_replying 200 ''{not json'')) ''{not json''
       = Inl (Error ''invalid character'')
   \<and> snd (Authorize (sample_runtime (remote_replying 200 ''{not json''))
         [''authorization'', ''x-tidepool-session-token'']
         [''roles'', ''not-present'', ''userid'', ''isserver'']
         scenarioA_service inbound_request)
       = Inl (Error ''invalid character'')"
proof -
  let ?rtA = "sample_runtime (remote_replying 200 scenarioA_text)"
  let ?rtC = "sample_runtime (remote_replying 200 ''{not json'')"
  let ?fo = "[''authorization'', ''x-tidepool-session-token'']"
  let ?ao = "[''roles'', ''not-present'', ''userid'', ''isserver'']"
  have new: "NewRequestWithContext (sample_runtime remote) ''GET''
      (RemoteAuthService.AuthUrl scenarioA_service) = Inr new_request" for remote
    by (simp add: NewRequestWithContext_def sample_runtime_def accept_url_def
        scenarioA_service_def new_request_def)
  have sent: "Do (sample_runtime (remote_replying 200 b)) r = Inr \<lparr> StatusCode = 200, Body = b \<rparr>"
    for b r
    by (simp add: sample_runtime_def remote_replying_def)
  have decA: "Decode ?rtA scenarioA_text = Inr scenarioA_body"
    by (simp add: sample_runtime_def sample_Decode_def)
  have decC: "Decode ?rtC ''{not json'' = Inl (Error ''invalid character'')"
    by (simp add: sample_runtime_def sample_Decode_def scenarioA_text_def empty_roles_text_def)
  have hs: "extractLoop (Sprintf_float ?rtA) scenarioA_body (range_of scenarioA_mapping ?ao) []
      = [\<lparr> Key = ''x-auth-roles'', Value = ''admin,user'' \<rparr>,
         \<lparr> Key = ''x-auth-subject-id'', Value = ''123456'' \<rparr>,
         \<lparr> Key = ''x-auth-server-access'', Value = ''true'' \<rparr>]"
    by (simp add: scenarioA_mapping_def scenarioA_body_def range_of_def List.map_filter_simps
        FormatBool_def)
  have a2h: "AttributesToHeadersMap scenarioA_service = scenarioA_mapping"
    by (simp add: scenarioA_service_def)
  have A: "snd (Authorize ?rtA ?fo ?ao scenarioA_service inbound_request)
      = Inr (AuthorizedResponse
           [\<lparr> Key = ''x-auth-roles'', Value = ''admin,user'' \<rparr>,
            \<lparr> Key = ''x-auth-subject-id'', Value = ''123456'' \<rparr>,
            \<lparr> Key = ''x-auth-server-access'', Value = ''true'' \<rparr>])"
    using Authorize_200_decodes_and_allows [where rt = ?rtA and c = scenarioA_service
        and remoteRequest = new_request and fo = ?fo and ao = ?ao and authzRequest = inbound_request
        and response = "\<lparr> StatusCode = 200, Body = scenarioA_text \<rparr>"]
      new sent decA hs a2h
    by simp
  have C: "snd (Authorize ?rtC ?fo ?ao scenarioA_service inbound_request)
      = Inl (Error ''invalid character'')"
    using Authorize_200_decodes_and_allows [where rt = ?rtC and c = scenarioA_service
        and remoteRequest = new_request and fo = ?fo and ao = ?ao and authzRequest = inbound_request
        and response = "\<lparr> StatusCode = 200, Body = ''{not json'' \<rparr>"]
      new sent decC
    by simp
  show ?thesis
    using new sent decA decC A C by simp
qed

lemma forwardLoop_cong:
  "\<forall>(k, sf) \<in> set kvs. sf \<longrightarrow> h1 k = h2 k \<Longrightarrow> forwardLoop h1 kvs r = forwardLoop h2 kvs r"
  by (induction h1 kvs r rule: forwardLoop.induct) (auto split: option.splits)

lemma forwardAllowedHeaders_cong:
  assumes "\<forall>k. RemoteAuthService.ForwardRequestHeaders c k = Some True \<longrightarrow> GetHeaders a1 k = GetHeaders a2 k"
  shows "forwardAllowedHeaders fo c r a1 = forwardAllowedHeaders fo c r a2"
  unfolding forwardAllowedHeaders_def Let_def
  by (rule forwardLoop_cong) (use assms in \<open>auto simp: set_range_of\<close>)

lemma Authorize_verdict_forwarded_only:
  assumes "\<forall>k. RemoteAuthService.ForwardRequestHeaders c k = Some True \<longrightarrow> GetHeaders a1 k = GetHeaders a2 k"
  shows "snd (Authorize rt fo ao c a1) = snd (Authorize rt fo ao (c\<lparr> RequestIdHeader := rid' \<rparr>) a2)"
proof -
  have f: "forwardAllowedHeaders fo (c\<lparr> RequestIdHeader := rid' \<rparr>) r a2 = forwardAllowedHeaders fo c r a1" for r
    using forwardAllowedHeaders_cong[OF assms, of fo r]
    by (simp add: forwardAllowedHeaders_def)
  show ?thesis
    by (simp add: Authorize_def f Let_def split: sum.splits)
qed

text \<open>
  C9. The claim fails when the correlation header is itself on the forwarding allow-list,
  as \<open>x-request-id\<close> may well be: two inbound requests that differ only in the value of that
  header are forwarded as different outbound requests, and the remote service may answer
  them differently. Here it allows one and denies the other.
\<close>

theorem correlation_header_forwarded_changes_verdict:
  "RemoteAuthService.RequestIdHeader tracing_service = ''x-request-id''
   \<and> (GetHeaders (request_with_id ''trusted''))(''x-request-id'' := None)
       = (GetHeaders (request_with_id ''other''))(''x-request-id'' := None)
   \<and> snd (Authorize (sample_runtime remote_checking_request_id) [''x-request-id''] []
         tracing_service (request_with_id ''trusted'')) = Inr (AuthorizedResponse [])
   \<and> snd (Authorize (sample_runtime remote_checking_request_id) [''x-request-id''] []
         tracing_service (request_with_id ''other'')) = Inr UnauthenticatedResponse"
  by (simp add: Authorize_def tracing_service_def request_with_id_def sample_runtime_def
      remote_checking_request_id_def NewRequestWithContext_def accept_url_def
      forwardAllowedHeaders_def extractRequestId_def extractResponseHeaders_def
      sample_Decode_def scenarioA_text_def empty_roles_text_def
      range_of_def List.map_filter_simps Header_Add_def)

text \<open>
  C9, as amended. With the same runtime and the same map iteration orders, two runs that
  differ only in \<open>RequestIdHeader\<close> return the same verdict or error, whatever is forwarded;
  and two runs whose inbound requests also differ return the same verdict or error provided
  the two requests agree on every header that is on the forwarding allow-list. So for
  requests that differ only in the correlation headers (the one either service names), it is
  enough that each correlation header is either not on the allow-list or the same in both.
\<close>

theorem correlation_id_does_not_affect_verdict:
  "snd (Authorize rt fo ao c a) = snd (Authorize rt fo ao (c\<lparr> RequestIdHeader := rid' \<rparr>) a)
   \<and> ((\<forall>k. RemoteAuthService.ForwardRequestHeaders c k = Some True
             \<longrightarrow> GetHeaders a1 k = GetHeaders a2 k)
        \<longrightarrow> snd (Authorize rt fo ao c a1)
            = snd (Authorize rt fo ao (c\<lparr> RequestIdHeader := rid' \<rparr>) a2))
   \<and> ((\<forall>k. k \<noteq> RemoteAuthService.RequestIdHeader c \<and> k \<noteq> rid'
             \<longrightarrow> GetHeaders a1 k = GetHeaders a2 k)
        \<and> (RemoteAuthService.ForwardRequestHeaders c (RemoteAuthService.RequestIdHeader c)
              = Some True
            \<longrightarrow> GetHeaders a1 (RemoteAuthService.RequestIdHeader c)
                = GetHeaders a2 (RemoteAuthService.RequestIdHeader c))
        \<and> (RemoteAuthService.ForwardRequestHeaders c rid' = Some True
            \<longrightarrow> GetHeaders a1 rid' = GetHeaders a2 rid')
        \<longrightarrow> snd (Authorize rt fo ao c a1)
            = snd (Authorize rt fo ao (c\<lparr> RequestIdHeader := rid' \<rparr>) a2))"
proof (intro conjI impI)
  show "snd (Authorize rt fo ao c a) = snd (Authorize rt fo ao (c\<lparr> RequestIdHeader := rid' \<rparr>) a)"
    by (rule Authorize_verdict_forwarded_only) simp
next
  assume "\<forall>k. RemoteAuthService.ForwardRequestHeaders c k = Some True
             \<longrightarrow> GetHeaders a1 k = GetHeaders a2 k"
  then show "snd (Authorize rt fo ao c a1)
      = snd (Authorize rt fo ao (c\<lparr> RequestIdHeader := rid' \<rparr>) a2)"
    by (rule Authorize_verdict_forwarded_only)
next
  assume h: "(\<forall>k. k \<noteq> RemoteAuthService.RequestIdHeader c \<and> k \<noteq> rid'
             \<longrightarrow> GetHeaders a1 k = GetHeaders a2 k)
        \<and> (RemoteAuthService.ForwardRequestHeaders c (RemoteAuthService.RequestIdHeader c)
              = Some True
            \<longrightarrow> GetHeaders a1 (RemoteAuthService.RequestIdHeader c)
                = GetHeaders a2 (RemoteAuthService.RequestIdHeader c))
        \<and> (RemoteAuthService.ForwardRequestHeaders c rid' = Some True
            \<longrightarrow> GetHeaders a1 rid' = GetHeaders a2 rid')"
  have "\<forall>k. RemoteAuthService.ForwardRequestHeaders c k = Some True
             \<longrightarrow> GetHeaders a1 k = GetHeaders a2 k"
  proof (intro allI impI)
    fix k
    assume f: "RemoteAuthService.ForwardRequestHeaders c k = Some True"
    show "GetHeaders a1 k = GetHeaders a2 k"
    proof (cases "k = RemoteAuthService.RequestIdHeader c")
      case True
      with h f show ?thesis by simp
    next
      case False
      show ?thesis
      proof (cases "k = rid'")
        case True
        with h f show ?thesis by simp
      next
        case False
        with \<open>k \<noteq> RemoteAuthService.RequestIdHeader c\<close> h show ?thesis by simp
      qed
    qed
  qed
  then show "snd (Authorize rt fo ao c a1)
      = snd (Authorize rt fo ao (c\<lparr> RequestIdHeader := rid' \<rparr>) a2)"
    by (rule Authorize_verdict_forwarded_only)
qed

text \<open>
  The theorem for \<open>tracing_service\<close>, which forwards its correlation header: switching the
  correlation identifier off leaves the verdict as it was. And for the service of scenario A,
  whose correlation header \<open>x-request-id\<close> is not forwarded: a run with the header present,
  and a run with the correlation identifier switched off and the header absent.
\<close>

theorem correlation_id_does_not_affect_verdict_witness:
  "RemoteAuthService.ForwardRequestHeaders tracing_service
       (RemoteAuthService.RequestIdHeader tracing_service) = Some True
   \<and> snd (Authorize (sample_runtime remote_checking_request_id) [''x-request-id''] []
         (tracing_service\<lparr> RequestIdHeader := [] \<rparr>) (request_with_id ''trusted''))
       = Inr (AuthorizedResponse [])
   \<and> extractRequestId scenarioA_service inbound_request_with_id = Some ''abc''
   \<and> extractRequestId (scenarioA_service\<lparr> RequestIdHeader := [] \<rparr>) inbound_request = None
   \<and> snd (Authorize (sample_runtime (remote_replying 200 scenarioA_text))
         [''authorization'', ''x-tidepool-session-token'']
         [''roles'', ''not-present'', ''userid'', ''isserver'']
         scenarioA_service inbound_request_with_id)
     = snd (Authorize (sample_runtime (remote_replying 200 scenarioA_text))
         [''authorization'', ''x-tidepool-session-token'']
         [''roles'', ''not-present'', ''userid'', ''isserver'']
         (scenarioA_service\<lparr> RequestIdHeader := [] \<rparr>) inbound_request)"
proof -
  have fwd: "RemoteAuthService.ForwardRequestHeaders tracing_service
       (RemoteAuthService.RequestIdHeader tracing_service) = Some True"
    by (simp add: tracing_service_def)
  have on: "snd (Authorize (sample_runtime remote_checking_request_id) [''x-request-id''] []
         tracing_service (request_with_id ''trusted'')) = Inr (AuthorizedResponse [])"
    by (simp add: Authorize_def tracing_service_def request_with_id_def sample_runtime_def
        remote_checking_request_id_def NewRequestWithContext_def accept_url_def
        forwardAllowedHeaders_def extractRequestId_def extractResponseHeaders_def
        sample_Decode_def scenarioA_text_def empty_roles_text_def
        range_of_def List.map_filter_simps Header_Add_def)
  have off: "snd (Authorize (sample_runtime remote_checking_request_id) [''x-request-id''] []
         tracing_service (request_with_id ''trusted''))
      = snd (Authorize (sample_runtime remote_checking_request_id) [''x-request-id''] []
         (tracing_service\<lparr> RequestIdHeader := [] \<rparr>) (request_with_id ''trusted''))"
    using correlation_id_does_not_affect_verdict by blast
  have agree: "\<forall>k. RemoteAuthService.ForwardRequestHeaders scenarioA_service k = Some True
        \<longrightarrow> GetHeaders inbound_request_with_id k = GetHeaders inbound_request k"
    by (simp add: scenarioA_service_def inbound_request_with_id_def inbound_request_def)
  have same: "snd (Authorize (sample_runtime (remote_replying 200 scenarioA_text))
         [''authorization'', ''x-tidepool-session-token'']
         [''roles'', ''not-present'', ''userid'', ''isserver'']
         scenarioA_service inbound_request_with_id)
     = snd (Authorize (sample_runtime (remote_replying 200 scenarioA_text))
         [''authorization'', ''x-tidepool-session-token'']
         [''roles'', ''not-present'', ''userid'', ''isserver'']
         (scenarioA_service\<lparr> RequestIdHeader := [] \<rparr>) inbound_request)"
    using correlation_id_does_not_affect_verdict agree by blast
  have id1: "extractRequestId scenarioA_service inbound_request_with_id = Some ''abc''"
    by (simp add: extractRequestId_def scenarioA_service_def inbound_request_with_id_def)
  have id2: "extractRequestId (scenarioA_service\<lparr> RequestIdHeader := [] \<rparr>) inbound_request = None"
    by (simp add: extractRequestId_def)
  show ?thesis
    using fwd on off same id1 id2 by simp
qed

end
